theory Spec2Isabelle
  imports Main "HOL-Library.Word"
begin

section \<open>Swift Inspector: the web client and the compile call\<close>

text \<open>
  The repository's source is the React client \<^verbatim>\<open>web/frontend/src/App.tsx\<close>: the editor
  state, the \<^verbatim>\<open>runCompile\<close> callback that posts to \<^verbatim>\<open>/api/compile\<close>, the status chip
  and the stage tabs. The FastAPI backend that shells out to \<^verbatim>\<open>swiftc\<close> is not part of
  the sources at hand; where a property is about the backend, the last section models it
  from the specification and says so.
\<close>

subsection \<open>JavaScript strings\<close>

text \<open>
  A JavaScript string is a sequence of UTF-16 code units. \<open>js\<close> embeds a literal of
  the source (all of them are ASCII).
\<close>

type_synonym jsstring = "16 word list"

definition js :: "string \<Rightarrow> jsstring" where
  "js s = map of_char s"

text \<open>
  \<^verbatim>\<open>String.prototype.trim\<close> removes leading and trailing WhiteSpace and LineTerminator
  code points (ECMA-262): TAB, LF, VT, FF, CR, SPACE, NBSP, the Unicode space separators
  and ZWNBSP. All of them are single code units.
\<close>

definition isWhiteSpace :: "16 word \<Rightarrow> bool" where
  "isWhiteSpace c =
     (c = 0x9 \<or> c = 0xA \<or> c = 0xB \<or> c = 0xC \<or> c = 0xD \<or> c = 0x20 \<or> c = 0xA0
      \<or> c = 0x1680 \<or> (0x2000 \<le> c \<and> c \<le> 0x200A) \<or> c = 0x2028 \<or> c = 0x2029
      \<or> c = 0x202F \<or> c = 0x205F \<or> c = 0x3000 \<or> c = 0xFEFF)"

definition trim :: "jsstring \<Rightarrow> jsstring" where
  "trim s = rev (dropWhile isWhiteSpace (rev (dropWhile isWhiteSpace s)))"

text \<open>
  Decimal digits of a natural number.
\<close>

fun decimal :: "nat \<Rightarrow> jsstring" where
  "decimal n = (if n < 10 then [of_nat (48 + n)] else decimal (n div 10) @ [of_nat (48 + n mod 10)])"

declare decimal.simps [simp del]

text \<open>
  Number-to-string conversion inside a template literal, for an integer-valued number.
  An integer of magnitude below \<open>2 ^ 53\<close> is printed as its decimal digits, with a leading
  minus sign when it is negative. A number of larger magnitude is printed from the
  shortest digit string that identifies its double-precision value, padded with zeros or
  in exponent notation (\<^verbatim>\<open>1e+21\<close>); that text depends on the floating-point
  representation, which is not modelled, and is given by the parameter \<open>large\<close>.
\<close>

definition numberToString :: "(int \<Rightarrow> jsstring) \<Rightarrow> int \<Rightarrow> jsstring" where
  "numberToString large i =
     (if abs i < 2 ^ 53 then (if i < 0 then js ''-'' @ decimal (nat (- i)) else decimal (nat i))
      else large i)"

subsection \<open>JSON.stringify on the flat objects the client builds\<close>

datatype json_value = JString jsstring | JBoolean bool

type_synonym json_object = "(jsstring \<times> json_value) list"

definition hexDigit :: "nat \<Rightarrow> 16 word" where
  "hexDigit d = (if d < 10 then of_nat (48 + d) else of_nat (87 + d))"

definition UnicodeEscape :: "16 word \<Rightarrow> jsstring" where
  "UnicodeEscape c =
     [0x5C, 0x75, hexDigit (unat c div 4096 mod 16), hexDigit (unat c div 256 mod 16),
      hexDigit (unat c div 16 mod 16), hexDigit (unat c mod 16)]"

definition isLeadingSurrogate :: "16 word \<Rightarrow> bool" where
  "isLeadingSurrogate c = (0xD800 \<le> c \<and> c \<le> 0xDBFF)"

definition isTrailingSurrogate :: "16 word \<Rightarrow> bool" where
  "isTrailingSurrogate c = (0xDC00 \<le> c \<and> c \<le> 0xDFFF)"

text \<open>
  One code unit that is not part of a surrogate pair: the two-character escapes of the
  JSON table, a \<^verbatim>\<open>\uXXXX\<close> escape for the other control characters and for a lone
  surrogate, the code unit itself otherwise.
\<close>

definition quoteCodeUnit :: "16 word \<Rightarrow> jsstring" where
  "quoteCodeUnit c =
     (if c = 0x8 then [0x5C, 0x62]
      else if c = 0x9 then [0x5C, 0x74]
      else if c = 0xA then [0x5C, 0x6E]
      else if c = 0xC then [0x5C, 0x66]
      else if c = 0xD then [0x5C, 0x72]
      else if c = 0x22 then [0x5C, 0x22]
      else if c = 0x5C then [0x5C, 0x5C]
      else if c < 0x20 \<or> isLeadingSurrogate c \<or> isTrailingSurrogate c then UnicodeEscape c
      else [c])"

fun quoteCodeUnits :: "jsstring \<Rightarrow> jsstring" where
  "quoteCodeUnits [] = []"
| "quoteCodeUnits [c] = quoteCodeUnit c"
| "quoteCodeUnits (c # d # cs) =
     (if isLeadingSurrogate c \<and> isTrailingSurrogate d then c # d # quoteCodeUnits cs
      else quoteCodeUnit c @ quoteCodeUnits (d # cs))"

definition QuoteJSONString :: "jsstring \<Rightarrow> jsstring" where
  "QuoteJSONString s = [0x22] @ quoteCodeUnits s @ [0x22]"

fun serializeJSONValue :: "json_value \<Rightarrow> jsstring" where
  "serializeJSONValue (JString s) = QuoteJSONString s"
| "serializeJSONValue (JBoolean b) = (if b then js ''true'' else js ''false'')"

definition serializeJSONProperty :: "jsstring \<times> json_value \<Rightarrow> jsstring" where
  "serializeJSONProperty p = QuoteJSONString (fst p) @ js '':'' @ serializeJSONValue (snd p)"

fun joinWithComma :: "jsstring list \<Rightarrow> jsstring" where
  "joinWithComma [] = []"
| "joinWithComma [x] = x"
| "joinWithComma (x # y # xs) = x @ js '','' @ joinWithComma (y # xs)"

definition JSON_stringify :: "json_object \<Rightarrow> jsstring" where
  "JSON_stringify obj = js ''{'' @ joinWithComma (map serializeJSONProperty obj) @ js ''}''"

text \<open>
  A reader for the quoted strings, the inverse of the quoting above. The client has no
  such function; it serves to show that the signature loses nothing of the source text.
  It reads up to the closing quote and returns the text read and what follows the quote.
\<close>

definition unhex :: "16 word \<Rightarrow> nat" where
  "unhex h = (if h \<le> 0x39 then unat h - 48 else unat h - 87)"

definition unescape :: "16 word \<Rightarrow> 16 word" where
  "unescape x =
     (if x = 0x62 then 0x8 else if x = 0x74 then 0x9 else if x = 0x6E then 0xA
      else if x = 0x66 then 0xC else if x = 0x72 then 0xD else x)"

fun unquote :: "jsstring \<Rightarrow> jsstring \<times> jsstring" where
  "unquote [] = ([], [])"
| "unquote (c # cs) =
     (if c = 0x22 then ([], cs)
      else if c = 0x5C then
        (case cs of
           [] \<Rightarrow> ([], [])
         | x # xs \<Rightarrow>
             if x = 0x75 then
               (case xs of
                  h1 # h2 # h3 # h4 # rest \<Rightarrow>
                    (of_nat (unhex h1 * 4096 + unhex h2 * 256 + unhex h3 * 16 + unhex h4)
                       # fst (unquote rest), snd (unquote rest))
                | _ \<Rightarrow> ([], []))
             else (unescape x # fst (unquote xs), snd (unquote xs)))
      else (c # fst (unquote cs), snd (unquote cs)))"

subsection \<open>Types and constants of App.tsx\<close>

datatype ViewKey = silRaw | silCanonical | ast | parse | ir | assembly

record CompileResult =
  label :: jsstring
  command :: jsstring
  exitCode :: int
  "output" :: jsstring

text \<open>
  \<^verbatim>\<open>Record<ViewKey, CompileResult>\<close>. The payload of the response is cast to this
  type without a check, and the client reads it with \<^verbatim>\<open>results?.[view]\<close> and tests the
  entry before using it, so an entry may be absent at run time: a partial map.
\<close>

type_synonym results_record = "ViewKey \<Rightarrow> CompileResult option"

record CompileResponse =
  results :: results_record

definition VIEW_ORDER :: "ViewKey list" where
  "VIEW_ORDER = [ast, parse, silRaw, silCanonical, ir, assembly]"

text \<open>
  The repository also holds an earlier revision of the same component
  (\<^verbatim>\<open>unnamed/part_001\<close>), whose callback, status function and tab rendering are the same
  and whose display order is the catalog order.
\<close>

definition VIEW_ORDER_part_001 :: "ViewKey list" where
  "VIEW_ORDER_part_001 = [silRaw, silCanonical, ast, parse, ir, assembly]"

record view_label =
  title :: jsstring
  subtitle :: jsstring

fun VIEW_LABELS :: "ViewKey \<Rightarrow> view_label" where
  "VIEW_LABELS silRaw = \<lparr>title = js ''SIL Raw'',
     subtitle = js ''Swift Intermediate Language before canonicalization''\<rparr>"
| "VIEW_LABELS silCanonical = \<lparr>title = js ''SIL Canonical'',
     subtitle = js ''Canonical SIL after guaranteed optimizations''\<rparr>"
| "VIEW_LABELS ast = \<lparr>title = js ''AST'',
     subtitle = js ''Swift compiler abstract syntax tree dump''\<rparr>"
| "VIEW_LABELS parse = \<lparr>title = js ''Parse'',
     subtitle = js ''Parser diagnostics and structure''\<rparr>"
| "VIEW_LABELS ir = \<lparr>title = js ''LLVM IR'',
     subtitle = js ''LLVM intermediate representation''\<rparr>"
| "VIEW_LABELS assembly = \<lparr>title = js ''Assembly'',
     subtitle = js ''Target assembly emitted by the compiler''\<rparr>"

text \<open>
  \<^verbatim>\<open>formatCommandStatus(isLoading, result?)\<close>: the text of the status chip. The loading
  flag is looked at first, then whether there is a result, then its exit code. The first
  argument is the parameter of \<open>numberToString\<close>.
\<close>

definition formatCommandStatus ::
    "(int \<Rightarrow> jsstring) \<Rightarrow> bool \<Rightarrow> CompileResult option \<Rightarrow> jsstring" where
  "formatCommandStatus large isLoading result =
     (if isLoading then js ''Running...''
      else case result of
        None \<Rightarrow> js ''Command pending''
      | Some r \<Rightarrow>
          if exitCode r = 0 then js ''Success''
          else js ''Exit code '' @ numberToString large (exitCode r))"

subsection \<open>The state of the App component\<close>

record app_state =
  source :: jsstring
  activeView :: ViewKey
  demangle :: bool
  optimize :: bool
  wholeModule :: bool
  parseAsLibrary :: bool
  autoRun :: bool
  loading :: bool
  shown_results :: "results_record option"
  error :: "jsstring option"
  lastRunSignature :: "jsstring option"
  hasBootstrapped :: bool

text \<open>
  \<open>shown_results\<close> is the state variable \<^verbatim>\<open>results\<close> (the name is taken by the field of
  \<open>CompileResponse\<close>); \<open>None\<close> is \<^verbatim>\<open>null\<close>.
\<close>

definition runDisabled :: "app_state \<Rightarrow> bool" where
  "runDisabled s = (loading s \<or> length (trim (source s)) = 0)"

definition activeResult :: "app_state \<Rightarrow> CompileResult option" where
  "activeResult s = (case shown_results s of None \<Rightarrow> None | Some r \<Rightarrow> r (activeView s))"

definition status_chip :: "(int \<Rightarrow> jsstring) \<Rightarrow> app_state \<Rightarrow> jsstring" where
  "status_chip large s = formatCommandStatus large (loading s) (activeResult s)"

record tab =
  tab_view :: ViewKey
  tab_title :: jsstring
  tab_active :: bool
  tab_alert :: bool

text \<open>
  One tab button per entry of the display order, in that order; the alert marker is
  \<^verbatim>\<open>result && result.exitCode !== 0\<close>.
\<close>

definition render_tab :: "app_state \<Rightarrow> ViewKey \<Rightarrow> tab" where
  "render_tab s view =
     (let result = (case shown_results s of None \<Rightarrow> None | Some r \<Rightarrow> r view)
      in \<lparr>tab_view = view,
          tab_title = title (VIEW_LABELS view),
          tab_active = (view = activeView s),
          tab_alert = (case result of None \<Rightarrow> False | Some r \<Rightarrow> exitCode r \<noteq> 0)\<rparr>)"

definition tabs :: "app_state \<Rightarrow> tab list" where
  "tabs s = map (render_tab s) VIEW_ORDER"

text \<open>
  The same rendering in the earlier revision (\<^verbatim>\<open>unnamed/part_001\<close>): its own labels
  (the title of the \<^verbatim>\<open>ir\<close> view is \<^verbatim>\<open>IR\<close>) and its own display order.
\<close>

fun VIEW_LABELS_part_001 :: "ViewKey \<Rightarrow> view_label" where
  "VIEW_LABELS_part_001 silRaw = \<lparr>title = js ''SIL Raw'',
     subtitle = js ''Swift Intermediate Language before canonicalization''\<rparr>"
| "VIEW_LABELS_part_001 silCanonical = \<lparr>title = js ''SIL Canonical'',
     subtitle = js ''Canonical SIL after guaranteed optimizations''\<rparr>"
| "VIEW_LABELS_part_001 ast = \<lparr>title = js ''AST'',
     subtitle = js ''Swift compiler abstract syntax tree dump''\<rparr>"
| "VIEW_LABELS_part_001 parse = \<lparr>title = js ''Parse'',
     subtitle = js ''Parser diagnostics and structure''\<rparr>"
| "VIEW_LABELS_part_001 ir = \<lparr>title = js ''IR'',
     subtitle = js ''LLVM intermediate representation''\<rparr>"
| "VIEW_LABELS_part_001 assembly = \<lparr>title = js ''Assembly'',
     subtitle = js ''Target assembly emitted by the compiler''\<rparr>"

definition render_tab_part_001 :: "app_state \<Rightarrow> ViewKey \<Rightarrow> tab" where
  "render_tab_part_001 s view =
     (let result = (case shown_results s of None \<Rightarrow> None | Some r \<Rightarrow> r view)
      in \<lparr>tab_view = view,
          tab_title = title (VIEW_LABELS_part_001 view),
          tab_active = (view = activeView s),
          tab_alert = (case result of None \<Rightarrow> False | Some r \<Rightarrow> exitCode r \<noteq> 0)\<rparr>)"

definition tabs_part_001 :: "app_state \<Rightarrow> tab list" where
  "tabs_part_001 s = map (render_tab_part_001 s) VIEW_ORDER_part_001"

subsection \<open>The compile call\<close>

record fetch_request =
  url :: jsstring
  http_method :: jsstring
  headers :: "(jsstring \<times> jsstring) list"
  body :: jsstring

text \<open>
  What a \<^verbatim>\<open>catch\<close> clause can receive: an \<^verbatim>\<open>Error\<close> object with its message, or any
  other value (\<^verbatim>\<open>err instanceof Error\<close> is false).
\<close>

datatype thrown = ErrorObject jsstring | NotAnError

text \<open>
  The response as the callback uses it: \<^verbatim>\<open>ok\<close>, \<^verbatim>\<open>status\<close>, and the two body readers
  \<^verbatim>\<open>text()\<close> and \<^verbatim>\<open>json()\<close>, each of which may throw. \<^verbatim>\<open>fetch\<close> itself may throw.
  The status of a response is an unsigned 16-bit number, so its text in a template
  literal is its decimal digits.
\<close>

record response =
  ok :: bool
  status :: "16 word"
  response_text :: "thrown + jsstring"
  response_json :: "thrown + CompileResponse"

type_synonym fetch_result = "thrown + response"

text \<open>
  The object literal that is stringified twice in \<^verbatim>\<open>runCompile\<close>, once for the signature
  and once for the request body, with the same five properties in the same order.
\<close>

definition request_object :: "jsstring \<Rightarrow> app_state \<Rightarrow> json_object" where
  "request_object trimmedSource s =
     [(js ''source'', JString trimmedSource),
      (js ''demangle'', JBoolean (demangle s)),
      (js ''optimize'', JBoolean (optimize s)),
      (js ''moduleOptimize'', JBoolean (wholeModule s)),
      (js ''parseAsLibrary'', JBoolean (parseAsLibrary s))]"

definition compile_request :: "jsstring \<Rightarrow> app_state \<Rightarrow> fetch_request" where
  "compile_request trimmedSource s =
     \<lparr>url = js ''/api/compile'',
      http_method = js ''POST'',
      headers = [(js ''Content-Type'', js ''application/json'')],
      body = JSON_stringify (request_object trimmedSource s)\<rparr>"

text \<open>
  \<^verbatim>\<open>runCompile\<close> is asynchronous. Up to the call of \<^verbatim>\<open>fetch\<close> it runs without
  interruption: it either returns (empty source, or the signature of the last run), or
  it has recorded the signature, set the loading flag, cleared the error and issued the
  request. Everything after the \<^verbatim>\<open>await\<close>s only uses state setters and the
  \<^verbatim>\<open>lastRunSignature\<close> ref, so it is a function of the outcome and of the state at the
  time the outcome arrives.
\<close>

datatype run_step = Returned app_state | Awaiting app_state fetch_request

definition runCompile_start :: "bool \<Rightarrow> app_state \<Rightarrow> run_step" where
  "runCompile_start skipCache s =
     (let trimmedSource = trim (source s) in
      if trimmedSource = [] then
        Returned (s\<lparr>lastRunSignature := None, shown_results := None,
                    error := Some (js ''Source is required'')\<rparr>)
      else
        let signature = JSON_stringify (request_object trimmedSource s) in
        if \<not> skipCache \<and> lastRunSignature s = Some signature then Returned s
        else
          Awaiting (s\<lparr>lastRunSignature := Some signature, loading := True, error := None\<rparr>)
                   (compile_request trimmedSource s))"

definition catch_block :: "thrown \<Rightarrow> app_state \<Rightarrow> app_state" where
  "catch_block err s =
     s\<lparr>lastRunSignature := None,
       error := Some (case err of ErrorObject message \<Rightarrow> message
                                | NotAnError \<Rightarrow> js ''Unexpected error'')\<rparr>"

definition finally_block :: "app_state \<Rightarrow> app_state" where
  "finally_block s = s\<lparr>loading := False\<rparr>"

definition runCompile_resume :: "fetch_result \<Rightarrow> app_state \<Rightarrow> app_state" where
  "runCompile_resume outcome s =
     finally_block
       (case outcome of
          Inl err \<Rightarrow> catch_block err s
        | Inr resp \<Rightarrow>
            if \<not> ok resp then
              (case response_text resp of
                 Inl err \<Rightarrow> catch_block err s
               | Inr message \<Rightarrow>
                   catch_block
                     (ErrorObject
                        (if message \<noteq> [] then message
                         else js ''Request failed with '' @ decimal (unat (status resp))))
                     s)
            else
              (case response_json resp of
                 Inl err \<Rightarrow> catch_block err s
               | Inr payload \<Rightarrow> s\<lparr>shown_results := Some (results payload)\<rparr>))"

text \<open>
  A whole run with nothing in between: the state after it and the requests it sent.
  \<open>fetch\<close> is the network and the server.
\<close>

definition runCompile ::
    "bool \<Rightarrow> (fetch_request \<Rightarrow> fetch_result) \<Rightarrow> app_state \<Rightarrow> app_state \<times> fetch_request list" where
  "runCompile skipCache fetch s =
     (case runCompile_start skipCache s of
        Returned s' \<Rightarrow> (s', [])
      | Awaiting s' request \<Rightarrow> (runCompile_resume (fetch request) s', [request]))"

text \<open>
  The callers of \<^verbatim>\<open>runCompile\<close>: the auto-run effect, which arms a 600 ms timer that
  calls \<^verbatim>\<open>runCompile()\<close>; the first-mount effect and the Run button, which call
  \<^verbatim>\<open>runCompile({ skipCache: true })\<close>.
\<close>

definition autoRun_effect :: "app_state \<Rightarrow> nat option" where
  "autoRun_effect s =
     (if \<not> autoRun s then None
      else if length (trim (source s)) = 0 then None
      else Some 600)"

definition autoRun_timer ::
    "(fetch_request \<Rightarrow> fetch_result) \<Rightarrow> app_state \<Rightarrow> app_state \<times> fetch_request list" where
  "autoRun_timer fetch s = runCompile False fetch s"

definition bootstrap_effect ::
    "(fetch_request \<Rightarrow> fetch_result) \<Rightarrow> app_state \<Rightarrow> app_state \<times> fetch_request list" where
  "bootstrap_effect fetch s =
     (if hasBootstrapped s then (s, [])
      else runCompile True fetch (s\<lparr>hasBootstrapped := True\<rparr>))"

definition run_button_click ::
    "(fetch_request \<Rightarrow> fetch_result) \<Rightarrow> app_state \<Rightarrow> app_state \<times> fetch_request list" where
  "run_button_click fetch s = (if runDisabled s then (s, []) else runCompile True fetch s)"

text \<open>Whether a run failed: \<^verbatim>\<open>fetch\<close> threw, or the response is not OK.\<close>

definition run_failed :: "fetch_result \<Rightarrow> bool" where
  "run_failed outcome = (case outcome of Inl err \<Rightarrow> True | Inr resp \<Rightarrow> \<not> ok resp)"

text \<open>
  The state at first render (the \<^verbatim>\<open>useState\<close> and \<^verbatim>\<open>useRef\<close> defaults). In the
  template literal of \<^verbatim>\<open>DEFAULT_SOURCE\<close> the sequence \<^verbatim>\<open>\(\<close> is an escape that
  yields the parenthesis alone.
\<close>

definition DEFAULT_SOURCE :: jsstring where
  "DEFAULT_SOURCE =
     js ''import Foundation'' @ [0xA, 0xA]
     @ js ''struct Greeter {'' @ [0xA]
     @ js ''    func greet(name: String) -> String {'' @ [0xA]
     @ js ''        '' @ [0x22] @ js ''Hello, (name)!'' @ [0x22, 0xA]
     @ js ''    }'' @ [0xA]
     @ js ''}'' @ [0xA, 0xA]
     @ js ''print(Greeter().greet(name: '' @ [0x22] @ js ''Swift'' @ [0x22] @ js ''))'' @ [0xA]"

definition initial_state :: app_state where
  "initial_state =
     \<lparr>source = DEFAULT_SOURCE, activeView = silRaw, demangle = False, optimize = False,
      wholeModule = False, parseAsLibrary = False, autoRun = True, loading = False,
      shown_results = None, error = None, lastRunSignature = None, hasBootstrapped = False\<rparr>"

text \<open>A network whose every request has the same outcome, for concrete runs.\<close>

definition server_always :: "fetch_result \<Rightarrow> fetch_request \<Rightarrow> fetch_result" where
  "server_always outcome request = outcome"

definition no_results :: results_record where
  "no_results view = None"

definition ok_response :: "results_record \<Rightarrow> response" where
  "ok_response rs =
     \<lparr>ok = True, status = 200, response_text = Inr [], response_json = Inr \<lparr>results = rs\<rparr>\<rparr>"

definition error_response :: "16 word \<Rightarrow> jsstring \<Rightarrow> response" where
  "error_response code message =
     \<lparr>ok = False, status = code, response_text = Inr message,
      response_json = Inl (ErrorObject (js ''Unexpected token''))\<rparr>"

subsection \<open>The compilation-stage orchestrator\<close>

text \<open>
  The backend (\<^verbatim>\<open>web/backend/app\<close>) is named by the README, the Makefile and the
  Dockerfile, and called by the client, but its code is not among the sources. The
  definitions of this subsection follow the specification's sections 3 and 4. What the
  specification leaves open (the labels, the argument lists, which stages are eligible
  for demangling, the sentinel exit code, the failure texts) and the external
  collaborators (process runner, demangler) are parameters.
\<close>

text \<open>
  Modelled from the spec: the data model of section 3 (the backend's request and result
  types are not in the sources). A request is the source text and the four option
  booleans; a StageSpec has a key, a label, an argument builder from the options and a
  demangling flag; a StageResult has the label, the command (the argument vector used),
  the exit code and the output.
\<close>

record options =
  opt_demangle :: bool
  opt_optimize :: bool
  opt_wholeModuleOptimization :: bool
  opt_parseAsLibrary :: bool

record CompileRequest =
  req_source :: jsstring
  req_options :: options

record StageSpec =
  key :: ViewKey
  stage_label :: jsstring
  buildArgs :: "options \<Rightarrow> jsstring list"
  demangleEligible :: bool

record StageResult =
  result_label :: jsstring
  result_command :: "jsstring list"
  result_exitCode :: int
  result_output :: jsstring

text \<open>
  Modelled from the spec: the Process Runner's failures of section 4.1, the request-level
  error of section 4.4, and the collaborators (the backend's runner and demangler calls
  are not in the sources). \<open>run\<close> is one invocation of the toolchain for a stage, with
  its arguments and the source as input; the executable and the timeout are fixed and left
  out. \<open>demangler\<close> gives \<open>None\<close> when the demangler fails.
\<close>

datatype run_failure = Timeout | LaunchFailure | IOFailure

datatype request_error = ValidationError

record backend =
  label_of :: "ViewKey \<Rightarrow> jsstring"
  args_of :: "ViewKey \<Rightarrow> options \<Rightarrow> jsstring list"
  eligible :: "ViewKey \<Rightarrow> bool"
  run :: "ViewKey \<Rightarrow> jsstring list \<Rightarrow> jsstring \<Rightarrow> run_failure + int \<times> jsstring"
  demangler :: "jsstring \<Rightarrow> jsstring option"
  sentinelExitCode :: int
  describeFailure :: "run_failure \<Rightarrow> jsstring"

text \<open>
  Modelled from the spec: the Stage Catalog of section 4.2 (the backend's stage table is
  not in the sources). A fixed six-entry sequence: raw intermediate representation,
  canonical intermediate representation, abstract syntax tree, parse-only, low-level IR,
  assembly; each entry has its key, its label, its argument builder and its demangling
  flag.
\<close>

definition stages :: "backend \<Rightarrow> StageSpec list" where
  "stages b =
     map (\<lambda>k. \<lparr>key = k, stage_label = label_of b k, buildArgs = args_of b k,
               demangleEligible = eligible b k\<rparr>)
         [silRaw, silCanonical, ast, parse, ir, assembly]"

text \<open>
  Modelled from the spec: the Demangling Post-Processor of section 4.3 (the backend's
  demangling code is not in the sources). The raw output is returned unchanged if
  demangling was not requested or the stage is not eligible; otherwise the demangler
  filters it, and if the demangler fails (\<open>None\<close>) the raw output is the fallback.
\<close>

definition postProcess :: "(jsstring \<Rightarrow> jsstring option) \<Rightarrow> jsstring \<Rightarrow> bool \<Rightarrow> bool \<Rightarrow> jsstring" where
  "postProcess dm rawOutput stageEligible demangleRequested =
     (if \<not> demangleRequested \<or> \<not> stageEligible then rawOutput
      else case dm rawOutput of None \<Rightarrow> rawOutput | Some readable \<Rightarrow> readable)"

text \<open>
  Modelled from the spec: steps 3 to 5 of the Orchestrator's algorithm in section 4.4 for
  one stage (the backend's stage runner is not in the sources). The arguments are built
  from the options, the process runner is invoked with them and the source, and the
  outcome, success or failure, becomes a StageResult whose command is the argument
  vector used; a failure to run gives the sentinel exit code and a description.
\<close>

definition runStage :: "backend \<Rightarrow> StageSpec \<Rightarrow> CompileRequest \<Rightarrow> StageResult" where
  "runStage b spec request =
     (let args = buildArgs spec (req_options request) in
      case run b (key spec) args (req_source request) of
        Inr (code, rawOutput) \<Rightarrow>
          \<lparr>result_label = stage_label spec, result_command = args, result_exitCode = code,
           result_output = postProcess (demangler b) rawOutput (demangleEligible spec)
                             (opt_demangle (req_options request))\<rparr>
      | Inl failure \<Rightarrow>
          \<lparr>result_label = stage_label spec, result_command = args,
           result_exitCode = sentinelExitCode b, result_output = describeFailure b failure\<rparr>)"

text \<open>
  Modelled from the spec: the Orchestrator's \<^verbatim>\<open>compile(request)\<close> of section 4.4 (the
  backend's request handler is not in the sources). It fails only for a source that is
  empty after trimming; once accepted it returns one entry per StageSpec of the catalog,
  keyed by the stage key.
\<close>

definition compile :: "backend \<Rightarrow> CompileRequest \<Rightarrow> request_error + (ViewKey \<times> StageResult) list" where
  "compile b request =
     (if trim (req_source request) = [] then Inl ValidationError
      else Inr (map (\<lambda>spec. (key spec, runStage b spec request)) (stages b)))"

text \<open>A backend for concrete runs: every stage invocation ends the same way.\<close>

definition sample_backend :: "(run_failure + int \<times> jsstring) \<Rightarrow> backend" where
  "sample_backend outcome =
     \<lparr>label_of = (\<lambda>k. title (VIEW_LABELS k)),
      args_of = (\<lambda>k opts. if opt_optimize opts then [js ''-O''] else []),
      eligible = (\<lambda>k. k \<noteq> parse),
      run = (\<lambda>k args stdin. outcome),
      demangler = (\<lambda>t. Some (js ''demangled'')),
      sentinelExitCode = - 1,
      describeFailure = (\<lambda>f. js ''failed'')\<rparr>"

definition sample_options :: "bool \<Rightarrow> options" where
  "sample_options d =
     \<lparr>opt_demangle = d, opt_optimize = False, opt_wholeModuleOptimization = False,
      opt_parseAsLibrary = False\<rparr>"

text \<open>A text for the numbers beyond the safe integers, for concrete runs.\<close>

definition sample_large :: "int \<Rightarrow> jsstring" where
  "sample_large i = js ''1e+21''"

text \<open>A request for concrete runs of the orchestrator.\<close>

definition sample_request :: CompileRequest where
  "sample_request = \<lparr>req_source = js ''print(1)'', req_options = sample_options False\<rparr>"

text \<open>Stage results for concrete runs: every stage exits with 0 except the parse stage.\<close>

definition sample_result :: "int \<Rightarrow> CompileResult" where
  "sample_result code =
     \<lparr>label = js ''Parse'', command = js ''swiftc -parse -'', exitCode = code, output = []\<rparr>"

definition sample_results :: "int \<Rightarrow> results_record" where
  "sample_results code view = Some (sample_result (if view = parse then code else 0))"

section \<open>Properties of the client\<close>

subsection \<open>Auxiliary facts\<close>

lemma trim_no_edge_whitespace:
  assumes "trim s \<noteq> []"
  shows "\<not> isWhiteSpace (hd (trim s)) \<and> \<not> isWhiteSpace (last (trim s))"
proof -
  let ?a = "dropWhile isWhiteSpace s"
  let ?b = "dropWhile isWhiteSpace (rev ?a)"
  from assms have b: "?b \<noteq> []" by (simp add: trim_def)
  have "\<not> isWhiteSpace (hd ?b)" using b by (rule hd_dropWhile)
  then have l: "\<not> isWhiteSpace (last (trim s))" using b by (simp add: trim_def last_rev)
  have a: "?a \<noteq> []"
  proof
    assume e: "?a = []"
    have "?b = []" unfolding e by simp
    with b show False by simp
  qed
  have "rev ?a = takeWhile isWhiteSpace (rev ?a) @ ?b" by simp
  then have "last (rev ?a) = last ?b" using b by (metis last_appendR)
  then have "last ?b = hd ?a" using a by (simp add: last_rev)
  moreover have "\<not> isWhiteSpace (hd ?a)" using a by (rule hd_dropWhile)
  ultimately have "\<not> isWhiteSpace (hd (trim s))" using b by (simp add: trim_def hd_rev)
  with l show ?thesis by simp
qed

lemma runCompile_start_empty:
  "trim (source s) = [] \<Longrightarrow>
   runCompile_start skipCache s =
     Returned (s\<lparr>lastRunSignature := None, shown_results := None,
                 error := Some (js ''Source is required'')\<rparr>)"
  by (simp add: runCompile_start_def)

lemma runCompile_start_same_signature:
  "trim (source s) \<noteq> [] \<Longrightarrow>
   lastRunSignature s = Some (JSON_stringify (request_object (trim (source s)) s)) \<Longrightarrow>
   runCompile_start False s = Returned s"
  by (simp add: runCompile_start_def Let_def)

lemma runCompile_start_skipCache:
  "trim (source s) \<noteq> [] \<Longrightarrow>
   runCompile_start True s =
     Awaiting (s\<lparr>lastRunSignature := Some (JSON_stringify (request_object (trim (source s)) s)),
                 loading := True, error := None\<rparr>)
              (compile_request (trim (source s)) s)"
  by (simp add: runCompile_start_def Let_def)

lemma runCompile_start_new_signature:
  "trim (source s) \<noteq> [] \<Longrightarrow>
   lastRunSignature s \<noteq> Some (JSON_stringify (request_object (trim (source s)) s)) \<Longrightarrow>
   runCompile_start skipCache s =
     Awaiting (s\<lparr>lastRunSignature := Some (JSON_stringify (request_object (trim (source s)) s)),
                 loading := True, error := None\<rparr>)
              (compile_request (trim (source s)) s)"
  by (simp add: runCompile_start_def Let_def)

lemma runCompile_requests:
  "request \<in> set (snd (runCompile skipCache fetch s)) \<Longrightarrow>
   trim (source s) \<noteq> [] \<and> request = compile_request (trim (source s)) s"
  by (auto simp: runCompile_def runCompile_start_def Let_def split: if_splits)

lemma Exit_code_not_Success: "js ''Exit code '' @ t \<noteq> js ''Success''"
  by (simp add: js_def)

lemma resume_loading: "loading (runCompile_resume outcome s) = False"
  by (simp add: runCompile_resume_def finally_block_def)

lemma resume_failed:
  "run_failed outcome \<Longrightarrow>
   lastRunSignature (runCompile_resume outcome s) = None
   \<and> error (runCompile_resume outcome s) \<noteq> None
   \<and> shown_results (runCompile_resume outcome s) = shown_results s"
  by (auto simp: run_failed_def runCompile_resume_def finally_block_def catch_block_def
           split: sum.splits)

lemma resume_inputs:
  "source (runCompile_resume outcome s) = source s
   \<and> demangle (runCompile_resume outcome s) = demangle s
   \<and> optimize (runCompile_resume outcome s) = optimize s
   \<and> wholeModule (runCompile_resume outcome s) = wholeModule s
   \<and> parseAsLibrary (runCompile_resume outcome s) = parseAsLibrary s"
  by (auto simp: runCompile_resume_def finally_block_def catch_block_def split: sum.splits)

lemma request_object_cong:
  "demangle s' = demangle s \<Longrightarrow> optimize s' = optimize s \<Longrightarrow> wholeModule s' = wholeModule s \<Longrightarrow>
   parseAsLibrary s' = parseAsLibrary s \<Longrightarrow> request_object t s' = request_object t s"
  by (simp add: request_object_def)

subsection \<open>An empty source is refused before any request\<close>

text \<open>
  C3. When the editor text trims to the empty string, \<^verbatim>\<open>runCompile\<close> (with or without
  \<^verbatim>\<open>skipCache\<close>, whatever the network would answer) sets the error
  \<^verbatim>\<open>Source is required\<close>, clears the results and the remembered signature, and sends no
  request. The Run button is disabled in that state and the auto-run effect arms no
  timer, so no caller reaches the compile call either.
\<close>

theorem empty_source_rejected:
  assumes "trim (source s) = []"
  shows "runCompile skipCache fetch s =
           (s\<lparr>lastRunSignature := None, shown_results := None,
              error := Some (js ''Source is required'')\<rparr>, [])
         \<and> runDisabled s \<and> autoRun_effect s = None \<and> run_button_click fetch s = (s, [])"
  using assms
  by (simp add: runCompile_def runCompile_start_empty runDisabled_def autoRun_effect_def
        run_button_click_def)

theorem empty_source_rejected_witness:
  "trim (source (initial_state\<lparr>source := [0x20, 0xA, 0x9, 0x3000]\<rparr>)) = []
   \<and> snd (runCompile False (server_always (Inr (ok_response no_results)))
            (initial_state\<lparr>source := [0x20, 0xA, 0x9, 0x3000]\<rparr>)) = []
   \<and> error (fst (runCompile False (server_always (Inr (ok_response no_results)))
            (initial_state\<lparr>source := [0x20, 0xA, 0x9, 0x3000]\<rparr>)))
       = Some (js ''Source is required'')"
proof -
  have h: "trim (source (initial_state\<lparr>source := [0x20, 0xA, 0x9, 0x3000]\<rparr>)) = []"
    by (simp add: trim_def isWhiteSpace_def)
  show ?thesis
    using h empty_source_rejected [OF h, of False "server_always (Inr (ok_response no_results))"]
    by simp
qed

subsection \<open>Exit codes and the status shown\<close>

lemma stage_exit_code_zero:
  assumes "sentinelExitCode b \<noteq> 0"
  shows "(result_exitCode (runStage b spec request) = 0)
       = (\<exists>rawOutput. run b (key spec) (buildArgs spec (req_options request)) (req_source request)
                        = Inr (0, rawOutput))"
  using assms by (auto simp: runStage_def Let_def split: sum.splits prod.splits)

lemma one_tab_per_view:
  "map tab_alert (filter (\<lambda>t. tab_view t = view) (tabs s)) = [tab_alert (render_tab s view)]"
  by (cases view) (simp_all add: tabs_def VIEW_ORDER_def render_tab_def Let_def)

lemma one_tab_per_view_part_001:
  "map tab_alert (filter (\<lambda>t. tab_view t = view) (tabs_part_001 s))
     = [tab_alert (render_tab_part_001 s view)]"
  by (cases view)
     (simp_all add: tabs_part_001_def VIEW_ORDER_part_001_def render_tab_part_001_def Let_def)

text \<open>
  C5. In the orchestrator, with a sentinel exit code that is not zero, the exit code of a
  stage result is 0 exactly when the stage's invocation of the external tool returned
  with the exit status 0. In the client, for a stage result that it holds, the status
  text computed from it (\<^verbatim>\<open>formatCommandStatus\<close> once no run is in progress; while one
  is, the text is \<^verbatim>\<open>Running...\<close> whatever the result) is \<^verbatim>\<open>Success\<close> exactly when the
  exit code is 0, and \<^verbatim>\<open>Exit code N\<close> for any other exit code N; the status chip shows
  it for the active view; and the rendered tab bar, in either revision of the component,
  has exactly one tab for the stage, which carries the alert marker exactly when the exit
  code is not 0.
\<close>

theorem exit_code_status:
  assumes "shown_results s = Some rs" and "rs view = Some r" and "sentinelExitCode b \<noteq> 0"
  shows "(result_exitCode (runStage b spec request) = 0)
           = (\<exists>rawOutput. run b (key spec) (buildArgs spec (req_options request))
                              (req_source request) = Inr (0, rawOutput))
     \<and> (formatCommandStatus large False (Some r) = js ''Success'') = (exitCode r = 0)
     \<and> (exitCode r \<noteq> 0 \<longrightarrow>
          formatCommandStatus large False (Some r)
            = js ''Exit code '' @ numberToString large (exitCode r))
     \<and> (\<not> loading s \<and> activeView s = view \<longrightarrow>
          (status_chip large s = js ''Success'') = (exitCode r = 0))
     \<and> tab_alert (render_tab s view) = (exitCode r \<noteq> 0)
     \<and> map tab_alert (filter (\<lambda>t. tab_view t = view) (tabs s)) = [exitCode r \<noteq> 0]
     \<and> map tab_alert (filter (\<lambda>t. tab_view t = view) (tabs_part_001 s)) = [exitCode r \<noteq> 0]"
proof (intro conjI)
  show "(result_exitCode (runStage b spec request) = 0)
           = (\<exists>rawOutput. run b (key spec) (buildArgs spec (req_options request))
                              (req_source request) = Inr (0, rawOutput))"
    using assms(3) by (rule stage_exit_code_zero)
  show "(formatCommandStatus large False (Some r) = js ''Success'') = (exitCode r = 0)"
    by (simp add: formatCommandStatus_def Exit_code_not_Success)
  show "exitCode r \<noteq> 0 \<longrightarrow>
          formatCommandStatus large False (Some r)
            = js ''Exit code '' @ numberToString large (exitCode r)"
    by (simp add: formatCommandStatus_def)
  show "\<not> loading s \<and> activeView s = view \<longrightarrow>
          (status_chip large s = js ''Success'') = (exitCode r = 0)"
    using assms(1,2)
    by (auto simp: formatCommandStatus_def status_chip_def activeResult_def Exit_code_not_Success)
  show a: "tab_alert (render_tab s view) = (exitCode r \<noteq> 0)"
    using assms(1,2) by (simp add: render_tab_def)
  show "map tab_alert (filter (\<lambda>t. tab_view t = view) (tabs s)) = [exitCode r \<noteq> 0]"
    unfolding one_tab_per_view a ..
  have "tab_alert (render_tab_part_001 s view) = (exitCode r \<noteq> 0)"
    using assms(1,2) by (simp add: render_tab_part_001_def)
  then show "map tab_alert (filter (\<lambda>t. tab_view t = view) (tabs_part_001 s)) = [exitCode r \<noteq> 0]"
    unfolding one_tab_per_view_part_001 by simp
qed

theorem exit_code_status_witness:
  "status_chip sample_large
       (initial_state\<lparr>activeView := parse, shown_results := Some (sample_results 1)\<rparr>)
     = js ''Exit code 1''
   \<and> map tab_alert
        (tabs (initial_state\<lparr>activeView := parse, shown_results := Some (sample_results 1)\<rparr>))
     = [False, True, False, False, False, False]
   \<and> map tab_alert (filter (\<lambda>t. tab_view t = parse)
        (tabs (initial_state\<lparr>activeView := parse, shown_results := Some (sample_results 1)\<rparr>)))
     = [True]
   \<and> map tab_alert (filter (\<lambda>t. tab_view t = ast)
        (tabs_part_001 (initial_state\<lparr>activeView := parse, shown_results := Some (sample_results 1)\<rparr>)))
     = [False]
   \<and> formatCommandStatus sample_large False (Some (sample_result 0)) = js ''Success''
   \<and> result_exitCode (runStage (sample_backend (Inr (0, js ''ok''))) (hd (stages (sample_backend (Inr (0, js ''ok''))))) sample_request) = 0
   \<and> result_exitCode (runStage (sample_backend (Inl LaunchFailure)) (hd (stages (sample_backend (Inl LaunchFailure)))) sample_request) = - 1"
proof -
  define s where "s = initial_state\<lparr>activeView := parse, shown_results := Some (sample_results 1)\<rparr>"
  define b where "b = sample_backend (Inr (0, js ''ok''))"
  define spec where "spec = hd (stages b)"
  have h1: "shown_results s = Some (sample_results 1)" by (simp add: s_def)
  have h2: "sample_results 1 parse = Some (sample_result 1)" by (simp add: sample_results_def)
  have h3: "sample_results 1 ast = Some (sample_result 0)" by (simp add: sample_results_def)
  have h4: "sentinelExitCode b \<noteq> 0" by (simp add: b_def sample_backend_def)
  have e1: "exitCode (sample_result 1) = 1" and e0: "exitCode (sample_result 0) = 0"
    by (simp_all add: sample_result_def)
  have l: "\<not> loading s \<and> activeView s = parse" by (simp add: s_def initial_state_def)
  note P = exit_code_status [OF h1 h2 h4, of spec sample_request sample_large]
  note A = exit_code_status [OF h1 h3 h4, of spec sample_request sample_large]
  have n: "numberToString sample_large 1 = js ''1''"
    by (simp add: numberToString_def decimal.simps js_def)
  have "status_chip sample_large s \<noteq> js ''Success''"
    using P [THEN conjunct2, THEN conjunct2, THEN conjunct2, THEN conjunct1, THEN mp, OF l] e1
    by simp
  have f: "formatCommandStatus sample_large False (Some (sample_result 1)) = js ''Exit code 1''"
    using P [THEN conjunct2, THEN conjunct2, THEN conjunct1] e1 n by (simp add: js_def)
  have "activeResult s = Some (sample_result 1)"
    by (simp add: activeResult_def s_def h2)
  with f l have c1: "status_chip sample_large s = js ''Exit code 1''"
    by (simp add: status_chip_def)
  have c2: "map tab_alert (tabs s) = [False, True, False, False, False, False]"
    by (simp add: tabs_def VIEW_ORDER_def render_tab_def s_def sample_results_def sample_result_def)
  have c3: "map tab_alert (filter (\<lambda>t. tab_view t = parse) (tabs s)) = [True]"
    using P [THEN conjunct2, THEN conjunct2, THEN conjunct2, THEN conjunct2, THEN conjunct2,
             THEN conjunct1] e1
    by simp
  have c4: "map tab_alert (filter (\<lambda>t. tab_view t = ast) (tabs_part_001 s)) = [False]"
    using A [THEN conjunct2, THEN conjunct2, THEN conjunct2, THEN conjunct2, THEN conjunct2,
             THEN conjunct2] e0
    by simp
  have c5: "formatCommandStatus sample_large False (Some (sample_result 0)) = js ''Success''"
    using A [THEN conjunct2, THEN conjunct1] e0 by simp
  have "run b (key spec) (buildArgs spec (req_options sample_request)) (req_source sample_request)
      = Inr (0, js ''ok'')"
    by (simp add: b_def sample_backend_def)
  then have "\<exists>rawOutput. run b (key spec) (buildArgs spec (req_options sample_request))
      (req_source sample_request) = Inr (0, rawOutput)"
    by (rule exI)
  with P [THEN conjunct1] have c6: "result_exitCode (runStage b spec sample_request) = 0"
    by (rule iffD2)
  have c7: "result_exitCode (runStage (sample_backend (Inl LaunchFailure))
      (hd (stages (sample_backend (Inl LaunchFailure)))) sample_request) = - 1"
    by (simp add: runStage_def sample_backend_def)
  from c1 c2 c3 c4 c5 c6 c7 show ?thesis unfolding s_def b_def spec_def by (intro conjI)
qed

subsection \<open>What is sent\<close>

lemma sample_trim: "trim (js ''  let x = 1 '' @ [0xA]) = js ''let x = 1''"
  by (simp add: trim_def isWhiteSpace_def js_def)

lemma sample_stringify:
  \<open>JSON_stringify (request_object (js ''let x = 1'') initial_state)
     = js ''{"source":"let x = 1","demangle":false,"optimize":false,"moduleOptimize":false,"parseAsLibrary":false}''\<close>
  by (simp add: JSON_stringify_def request_object_def initial_state_def js_def
        serializeJSONProperty_def QuoteJSONString_def quoteCodeUnit_def
        isLeadingSurrogate_def isTrailingSurrogate_def)

text \<open>
  C9. Every request that \<^verbatim>\<open>runCompile\<close> sends carries, as its \<^verbatim>\<open>source\<close> property,
  the editor text trimmed of leading and trailing white space: the body is the
  stringified object whose \<^verbatim>\<open>source\<close> is \<^verbatim>\<open>source.trim()\<close>, that text is not empty,
  and its first and last code units are not white space.
\<close>

theorem submitted_source_is_trimmed:
  assumes "request \<in> set (snd (runCompile skipCache fetch s))"
  shows "trim (source s) \<noteq> []
     \<and> request = compile_request (trim (source s)) s
     \<and> body request = JSON_stringify (request_object (trim (source s)) s)
     \<and> map_of (request_object (trim (source s)) s) (js ''source'') = Some (JString (trim (source s)))
     \<and> \<not> isWhiteSpace (hd (trim (source s))) \<and> \<not> isWhiteSpace (last (trim (source s)))"
proof -
  from runCompile_requests [OF assms]
  have ne: "trim (source s) \<noteq> []" and r: "request = compile_request (trim (source s)) s"
    by simp_all
  from r have b: "body request = JSON_stringify (request_object (trim (source s)) s)"
    by (simp add: compile_request_def)
  have m: "map_of (request_object (trim (source s)) s) (js ''source'') = Some (JString (trim (source s)))"
    by (simp add: request_object_def)
  from ne r b m trim_no_edge_whitespace [OF ne] show ?thesis by simp
qed

theorem submitted_source_is_trimmed_witness:
  \<open>snd (runCompile True (server_always (Inr (ok_response no_results)))
          (initial_state\<lparr>source := js ''  let x = 1 '' @ [0xA]\<rparr>))
     = [compile_request (js ''let x = 1'') (initial_state\<lparr>source := js ''  let x = 1 '' @ [0xA]\<rparr>)]
   \<and> body (compile_request (js ''let x = 1'') (initial_state\<lparr>source := js ''  let x = 1 '' @ [0xA]\<rparr>))
     = js ''{"source":"let x = 1","demangle":false,"optimize":false,"moduleOptimize":false,"parseAsLibrary":false}''\<close>
proof -
  define s where "s = initial_state\<lparr>source := js ''  let x = 1 '' @ [0xA]\<rparr>"
  define f where "f = server_always (Inr (ok_response no_results))"
  have t: "trim (source s) = js ''let x = 1''" using sample_trim by (simp add: s_def)
  then have ne: "trim (source s) \<noteq> []" by (simp add: js_def)
  have rq: "snd (runCompile True f s) = [compile_request (js ''let x = 1'') s]"
    unfolding runCompile_def runCompile_start_skipCache [OF ne] t by simp
  then have mem: "compile_request (js ''let x = 1'') s \<in> set (snd (runCompile True f s))"
    by simp
  have "request_object (js ''let x = 1'') s = request_object (js ''let x = 1'') initial_state"
    by (rule request_object_cong) (simp_all add: s_def)
  then have st: \<open>JSON_stringify (request_object (trim (source s)) s)
     = js ''{"source":"let x = 1","demangle":false,"optimize":false,"moduleOptimize":false,"parseAsLibrary":false}''\<close>
    unfolding t using sample_stringify by simp
  have "body (compile_request (js ''let x = 1'') s) = JSON_stringify (request_object (trim (source s)) s)"
    by (rule submitted_source_is_trimmed [OF mem, THEN conjunct2, THEN conjunct2, THEN conjunct1])
  then have \<open>body (compile_request (js ''let x = 1'') s)
     = js ''{"source":"let x = 1","demangle":false,"optimize":false,"moduleOptimize":false,"parseAsLibrary":false}''\<close>
    unfolding st .
  with rq show ?thesis unfolding s_def f_def by (rule conjI)
qed

subsection \<open>A failed run\<close>

lemma retry_after_failure:
  assumes f: "run_failed outcome" and ne: "trim (source s) \<noteq> []"
  shows "runCompile_start False (runCompile_resume outcome s)
               = Awaiting
                   ((runCompile_resume outcome s)
                      \<lparr>lastRunSignature := Some (JSON_stringify (request_object (trim (source s)) s)),
                       loading := True, error := None\<rparr>)
                   (compile_request (trim (source s)) s)"
proof -
  define s' where "s' = runCompile_resume outcome s"
  have src: "source s' = source s"
    and flags: "demangle s' = demangle s" "optimize s' = optimize s"
      "wholeModule s' = wholeModule s" "parseAsLibrary s' = parseAsLibrary s"
    using resume_inputs [of outcome s] by (simp_all add: s'_def)
  have ro: "request_object (trim (source s)) s' = request_object (trim (source s)) s"
    using flags by (rule request_object_cong)
  have cr: "compile_request (trim (source s)) s' = compile_request (trim (source s)) s"
    by (simp only: compile_request_def ro)
  have sig: "lastRunSignature s' = None"
    using resume_failed [OF f, of s] by (simp add: s'_def)
  have ne': "trim (source s') \<noteq> []" unfolding src by (rule ne)
  have "lastRunSignature s' \<noteq> Some (JSON_stringify (request_object (trim (source s')) s'))"
    by (simp only: sig) simp
  from runCompile_start_new_signature [OF ne' this, of False]
  have "runCompile_start False s'
          = Awaiting
              (s'\<lparr>lastRunSignature := Some (JSON_stringify (request_object (trim (source s)) s)),
                  loading := True, error := None\<rparr>)
              (compile_request (trim (source s)) s)"
    by (simp only: src ro cr)
  then show ?thesis unfolding s'_def .
qed

lemma start_keeps_results:
  "runCompile_start skipCache s = Awaiting s' request \<Longrightarrow> shown_results s' = shown_results s"
  by (auto simp: runCompile_start_def Let_def split: if_splits)

lemma failed_whole_run:
  assumes "snd (runCompile skipCache fetch s) = [request]" and "run_failed (fetch request)"
  shows "lastRunSignature (fst (runCompile skipCache fetch s)) = None
     \<and> error (fst (runCompile skipCache fetch s)) \<noteq> None
     \<and> shown_results (fst (runCompile skipCache fetch s)) = shown_results s
     \<and> loading (fst (runCompile skipCache fetch s)) = False"
proof (cases "runCompile_start skipCache s")
  case (Returned s')
  with assms(1) show ?thesis by (simp add: runCompile_def)
next
  case (Awaiting s' request')
  with assms(1) have r: "request' = request" by (simp add: runCompile_def)
  from Awaiting have k: "shown_results s' = shown_results s" by (rule start_keeps_results)
  have e: "fst (runCompile skipCache fetch s) = runCompile_resume (fetch request) s'"
    by (simp add: runCompile_def Awaiting r)
  show ?thesis unfolding e
    using resume_failed [OF assms(2), of s'] resume_loading [of "fetch request" s'] k by simp
qed

text \<open>
  C10. When the outcome of the request arrives, the loading flag is set to false
  whatever the outcome. If the run failed (\<^verbatim>\<open>fetch\<close> threw, or the response is not OK),
  the remembered signature is reset to null, an error message is set, and the results
  on display are those that were there before; and since the signature is null, a retry
  with the same source and options, even without \<^verbatim>\<open>skipCache\<close>, sends the request
  again. For a whole run with nothing in between: if its request fails, then after the
  run the signature is null, an error is set, the loading flag is false and the results
  are those from before the run.
\<close>

theorem failed_run_resets:
  "loading (runCompile_resume outcome s) = False
   \<and> (run_failed outcome \<longrightarrow>
        lastRunSignature (runCompile_resume outcome s) = None
        \<and> error (runCompile_resume outcome s) \<noteq> None
        \<and> shown_results (runCompile_resume outcome s) = shown_results s
        \<and> (trim (source s) \<noteq> [] \<longrightarrow>
             runCompile_start False (runCompile_resume outcome s)
               = Awaiting
                   ((runCompile_resume outcome s)
                      \<lparr>lastRunSignature := Some (JSON_stringify (request_object (trim (source s)) s)),
                       loading := True, error := None\<rparr>)
                   (compile_request (trim (source s)) s)))
   \<and> (snd (runCompile skipCache fetch s0) = [request] \<and> run_failed (fetch request) \<longrightarrow>
        lastRunSignature (fst (runCompile skipCache fetch s0)) = None
        \<and> error (fst (runCompile skipCache fetch s0)) \<noteq> None
        \<and> shown_results (fst (runCompile skipCache fetch s0)) = shown_results s0
        \<and> loading (fst (runCompile skipCache fetch s0)) = False)"
proof (intro conjI impI)
  show "loading (runCompile_resume outcome s) = False" by (rule resume_loading)
next
  assume a: "snd (runCompile skipCache fetch s0) = [request] \<and> run_failed (fetch request)"
  from failed_whole_run [OF a [THEN conjunct1] a [THEN conjunct2]]
  show "lastRunSignature (fst (runCompile skipCache fetch s0)) = None"
    and "error (fst (runCompile skipCache fetch s0)) \<noteq> None"
    and "shown_results (fst (runCompile skipCache fetch s0)) = shown_results s0"
    and "loading (fst (runCompile skipCache fetch s0)) = False"
    by simp_all
next
  assume f: "run_failed outcome"
  from resume_failed [OF f, of s]
  show "lastRunSignature (runCompile_resume outcome s) = None"
    and "error (runCompile_resume outcome s) \<noteq> None"
    and "shown_results (runCompile_resume outcome s) = shown_results s"
    by simp_all
next
  assume "run_failed outcome" and "trim (source s) \<noteq> []"
  then show "runCompile_start False (runCompile_resume outcome s)
               = Awaiting
                   ((runCompile_resume outcome s)
                      \<lparr>lastRunSignature := Some (JSON_stringify (request_object (trim (source s)) s)),
                       loading := True, error := None\<rparr>)
                   (compile_request (trim (source s)) s)"
    by (rule retry_after_failure)
qed

theorem failed_run_resets_witness:
  "run_failed (Inr (error_response 500 []))
   \<and> loading (runCompile_resume (Inr (error_response 500 []))
        (initial_state\<lparr>loading := True, lastRunSignature := Some (js ''x'')\<rparr>)) = False
   \<and> lastRunSignature (runCompile_resume (Inr (error_response 500 []))
        (initial_state\<lparr>loading := True, lastRunSignature := Some (js ''x'')\<rparr>)) = None
   \<and> shown_results (runCompile_resume (Inr (error_response 500 []))
        (initial_state\<lparr>loading := True, lastRunSignature := Some (js ''x'')\<rparr>)) = None
   \<and> error (runCompile_resume (Inr (error_response 500 []))
        (initial_state\<lparr>loading := True, lastRunSignature := Some (js ''x'')\<rparr>))
       = Some (js ''Request failed with 500'')"
proof -
  define s where "s = initial_state\<lparr>loading := True, lastRunSignature := Some (js ''x'')\<rparr>"
  define out where "out = (Inr (error_response 500 []) :: fetch_result)"
  have f: "run_failed out" by (simp add: out_def run_failed_def error_response_def)
  note T = failed_run_resets [of out s]
  note F = T [THEN conjunct2, THEN conjunct1, THEN mp, OF f]
  have a: "loading (runCompile_resume out s) = False" by (rule T [THEN conjunct1])
  have b: "lastRunSignature (runCompile_resume out s) = None" by (rule F [THEN conjunct1])
  have "shown_results (runCompile_resume out s) = shown_results s"
    by (rule F [THEN conjunct2, THEN conjunct2, THEN conjunct1])
  then have c: "shown_results (runCompile_resume out s) = None"
    by (simp add: s_def initial_state_def)
  have d: "error (runCompile_resume out s) = Some (js ''Request failed with 500'')"
    by (simp add: out_def runCompile_resume_def error_response_def catch_block_def
        finally_block_def decimal.simps js_def)
  from f a b c d show ?thesis unfolding s_def out_def by simp
qed

subsection \<open>The signature determines the source and the options\<close>

lemma unat_small: "n < 65536 \<Longrightarrow> unat (of_nat n :: 16 word) = n"
  by (simp add: unat_of_nat)

lemma unhex_hexDigit: "d < 16 \<Longrightarrow> unhex (hexDigit d) = d"
  by (simp add: unhex_def hexDigit_def word_le_nat_alt unat_small del: of_nat_add)



lemma hex_digits_nat:
  fixes n :: nat
  assumes "n < 65536"
  shows "n div 4096 mod 16 * 4096 + n div 256 mod 16 * 256 + n div 16 mod 16 * 16 + n mod 16 = n"
proof -
  define q1 where "q1 = n div 16"
  define q2 where "q2 = n div 256"
  define q3 where "q3 = n div 4096"
  have e2: "q1 div 16 = q2" unfolding q1_def q2_def by (simp add: div_mult2_eq [symmetric])
  have e3: "q2 div 16 = q3" unfolding q2_def q3_def by (simp add: div_mult2_eq [symmetric])
  have s: "q3 < 16" unfolding q3_def using assms by (simp add: less_mult_imp_div_less)
  have a: "n = q1 * 16 + n mod 16" unfolding q1_def by simp
  have b: "q1 = q2 * 16 + q1 mod 16" unfolding e2 [symmetric] by simp
  have c: "q2 = q3 * 16 + q2 mod 16" unfolding e3 [symmetric] by simp
  have d: "q3 mod 16 = q3" using s by simp
  have "q3 * 4096 + q2 mod 16 * 256 + q1 mod 16 * 16 + n mod 16 = n"
    using a b c by linarith
  then show ?thesis unfolding q1_def q2_def q3_def d [unfolded q3_def] .
qed

lemma hex_roundtrip:
  "of_nat (unat c div 4096 mod 16 * 4096 + unat c div 256 mod 16 * 256
           + unat c div 16 mod 16 * 16 + unat c mod 16) = (c :: 16 word)"
proof -
  have "unat c < 65536" using unsigned_less [of c, where 'a = nat] by simp
  then have "unat c div 4096 mod 16 * 4096 + unat c div 256 mod 16 * 256
           + unat c div 16 mod 16 * 16 + unat c mod 16 = unat c"
    by (rule hex_digits_nat)
  then have "(of_nat (unat c div 4096 mod 16 * 4096 + unat c div 256 mod 16 * 256
           + unat c div 16 mod 16 * 16 + unat c mod 16) :: 16 word) = of_nat (unat c)"
    by (rule arg_cong)
  then show ?thesis by (simp only: of_nat_unat ucast_id)
qed

lemma unquote_UnicodeEscape:
  "unquote (UnicodeEscape c @ X) = (c # fst (unquote X), snd (unquote X))"
  by (simp add: UnicodeEscape_def unhex_hexDigit hex_roundtrip del: of_nat_add of_nat_mult)

lemma unquote_quoteCodeUnit:
  "unquote (quoteCodeUnit c @ X) = (c # fst (unquote X), snd (unquote X))"
  by (simp add: quoteCodeUnit_def unquote_UnicodeEscape unescape_def)


lemma unquote_quoteCodeUnits:
  "unquote (quoteCodeUnits t @ 0x22 # R) = (t, R)"
proof (induction t rule: quoteCodeUnits.induct)
  case 1
  show ?case by simp
next
  case (2 c)
  show ?case by (simp add: unquote_quoteCodeUnit)
next
  case (3 c d cs)
  show ?case
  proof (cases "isLeadingSurrogate c \<and> isTrailingSurrogate d")
    case True
    then have ne: "c \<noteq> 0x22" "c \<noteq> 0x5C" "d \<noteq> 0x22" "d \<noteq> 0x5C"
      by (auto simp: isLeadingSurrogate_def isTrailingSurrogate_def)
    have e: "quoteCodeUnits (c # d # cs) = c # d # quoteCodeUnits cs"
      by (simp only: quoteCodeUnits.simps if_P [OF True])
    have ih: "unquote (quoteCodeUnits cs @ 0x22 # R) = (cs, R)" by (rule "3.IH"(1) [OF True])
    show ?thesis unfolding e using ne by (simp add: ih)
  next
    case False
    have e: "quoteCodeUnits (c # d # cs) = quoteCodeUnit c @ quoteCodeUnits (d # cs)"
      by (simp only: quoteCodeUnits.simps if_not_P [OF False])
    have ih: "unquote (quoteCodeUnits (d # cs) @ 0x22 # R) = (d # cs, R)"
      by (rule "3.IH"(2) [OF False])
    show ?thesis unfolding e
      by (simp only: append_assoc unquote_quoteCodeUnit ih fst_conv snd_conv)
  qed
qed

lemma QuoteJSONString_inj:
  assumes "QuoteJSONString t @ R = QuoteJSONString t' @ R'"
  shows "t = t' \<and> R = R'"
proof -
  from assms have "quoteCodeUnits t @ 0x22 # R = quoteCodeUnits t' @ 0x22 # R'"
    by (simp add: QuoteJSONString_def)
  then have "unquote (quoteCodeUnits t @ 0x22 # R) = unquote (quoteCodeUnits t' @ 0x22 # R')"
    by (rule arg_cong)
  then show ?thesis by (simp only: unquote_quoteCodeUnits prod.inject)
qed

lemma peel_boolean:
  assumes "P @ (if a then js ''true'' else js ''false'') @ x # X
         = P @ (if b then js ''true'' else js ''false'') @ x # Y"
  shows "a = b \<and> X = Y"
proof -
  from assms have e: "(if a then js ''true'' else js ''false'') @ x # X
         = (if b then js ''true'' else js ''false'') @ x # Y"
    by (simp only: same_append_eq)
  show ?thesis
  proof (cases a; cases b)
    assume "a" "b" with e show ?thesis by simp
  next
    assume "a" "\<not> b" with e show ?thesis by (simp add: js_def)
  next
    assume "\<not> a" "b" with e show ?thesis by (simp add: js_def)
  next
    assume "\<not> a" "\<not> b" with e show ?thesis by simp
  qed
qed

lemma signature_determines_inputs:
  assumes "JSON_stringify (request_object t s) = JSON_stringify (request_object t' s')"
  shows "t = t' \<and> demangle s = demangle s' \<and> optimize s = optimize s'
     \<and> wholeModule s = wholeModule s' \<and> parseAsLibrary s = parseAsLibrary s'"
proof -
  define B where "B b = (if b then js ''true'' else js ''false'')" for b
  define K where "K k = QuoteJSONString (js k) @ js '':''" for k
  have B: "a = b \<and> X = Y" if "P @ B a @ x # X = P @ B b @ x # Y" for P a b x X Y
    using that unfolding B_def by (rule peel_boolean)
  have str: "JSON_stringify (request_object u v)
      = (js ''{'' @ K ''source'') @ QuoteJSONString u
          @ (0x2C # K ''demangle'') @ B (demangle v)
          @ 0x2C # K ''optimize'' @ B (optimize v)
          @ 0x2C # K ''moduleOptimize'' @ B (wholeModule v)
          @ 0x2C # K ''parseAsLibrary'' @ B (parseAsLibrary v) @ 0x7D # []" for u v
  proof -
    have c: "js '','' = [0x2C]" "js ''}'' = [0x7D]" by (simp_all add: js_def)
    show ?thesis
      by (simp add: JSON_stringify_def request_object_def serializeJSONProperty_def B_def K_def c)
  qed
  from assms have "QuoteJSONString t
          @ (0x2C # K ''demangle'') @ B (demangle s)
          @ 0x2C # K ''optimize'' @ B (optimize s)
          @ 0x2C # K ''moduleOptimize'' @ B (wholeModule s)
          @ 0x2C # K ''parseAsLibrary'' @ B (parseAsLibrary s) @ 0x7D # []
      = QuoteJSONString t'
          @ (0x2C # K ''demangle'') @ B (demangle s')
          @ 0x2C # K ''optimize'' @ B (optimize s')
          @ 0x2C # K ''moduleOptimize'' @ B (wholeModule s')
          @ 0x2C # K ''parseAsLibrary'' @ B (parseAsLibrary s') @ 0x7D # []"
    unfolding str same_append_eq .
  note a = QuoteJSONString_inj [OF this]
  note b = B [OF a [THEN conjunct2]]
  note c = B [OF b [THEN conjunct2]]
  note d = B [OF c [THEN conjunct2]]
  note f = B [OF d [THEN conjunct2]]
  show ?thesis
  proof (intro conjI)
    show "t = t'" by (rule a [THEN conjunct1])
    show "demangle s = demangle s'" by (rule b [THEN conjunct1])
    show "optimize s = optimize s'" by (rule c [THEN conjunct1])
    show "wholeModule s = wholeModule s'" by (rule d [THEN conjunct1])
    show "parseAsLibrary s = parseAsLibrary s'" by (rule f [THEN conjunct1])
  qed
qed

subsection \<open>When a run sends a request\<close>

lemma run_skipCache_sends:
  "trim (source s) \<noteq> [] \<Longrightarrow> snd (runCompile True fetch s) = [compile_request (trim (source s)) s]"
  by (simp add: runCompile_def runCompile_start_skipCache)

lemma run_new_signature_sends:
  "trim (source s) \<noteq> [] \<Longrightarrow>
   lastRunSignature s \<noteq> Some (JSON_stringify (request_object (trim (source s)) s)) \<Longrightarrow>
   snd (runCompile skipCache fetch s) = [compile_request (trim (source s)) s]"
  by (simp add: runCompile_def runCompile_start_new_signature)

lemma run_same_signature_skips:
  "trim (source s) \<noteq> [] \<Longrightarrow>
   lastRunSignature s = Some (JSON_stringify (request_object (trim (source s)) s)) \<Longrightarrow>
   runCompile False fetch s = (s, [])"
  by (simp add: runCompile_def runCompile_start_same_signature)

lemma resume_ok:
  "ok resp \<Longrightarrow> response_json resp = Inr payload \<Longrightarrow>
   runCompile_resume (Inr resp) s = s\<lparr>shown_results := Some (results payload), loading := False\<rparr>"
  by (simp add: runCompile_resume_def finally_block_def)

lemma run_ok_state:
  assumes ne: "trim (source s) \<noteq> []"
    and sig: "lastRunSignature s \<noteq> Some (JSON_stringify (request_object (trim (source s)) s))"
  shows "fst (runCompile skipCache (server_always (Inr (ok_response rs))) s)
       = s\<lparr>lastRunSignature := Some (JSON_stringify (request_object (trim (source s)) s)),
           loading := False, error := None, shown_results := Some rs\<rparr>"
  by (simp add: runCompile_def runCompile_start_new_signature [OF ne sig] server_always_def
      resume_ok ok_response_def)

lemma sample_source: "trim (source (initial_state\<lparr>source := js ''let x = 1''\<rparr>)) = js ''let x = 1''"
  by (simp add: trim_def isWhiteSpace_def js_def)

text \<open>
  C4, as the client has it. The client keeps the signature of the last run (trimmed
  source and the four options, stringified). With a non-empty trimmed source: a run
  started with \<^verbatim>\<open>skipCache\<close> (the Run button, the first mount) always sends one
  request; a run started without it (the auto-run timer) sends one request when its
  signature differs from the remembered one, and otherwise returns at once, sending
  nothing and leaving the state as it is. The signature determines the trimmed source
  and the options: when the remembered signature is that of a source and options, the
  auto-run sends nothing exactly when its trimmed source and its four options are
  those.
\<close>

theorem run_sends_unless_same_signature:
  assumes "trim (source s) \<noteq> []"
  shows "snd (runCompile True fetch s) = [compile_request (trim (source s)) s]
     \<and> (lastRunSignature s \<noteq> Some (JSON_stringify (request_object (trim (source s)) s)) \<longrightarrow>
          snd (runCompile False fetch s) = [compile_request (trim (source s)) s])
     \<and> (lastRunSignature s = Some (JSON_stringify (request_object (trim (source s)) s)) \<longrightarrow>
          runCompile False fetch s = (s, []))
     \<and> (lastRunSignature s = Some (JSON_stringify (request_object t0 s0)) \<longrightarrow>
          (snd (runCompile False fetch s) = [])
            = (trim (source s) = t0 \<and> demangle s = demangle s0 \<and> optimize s = optimize s0
               \<and> wholeModule s = wholeModule s0 \<and> parseAsLibrary s = parseAsLibrary s0))"
proof (intro conjI impI)
  show "snd (runCompile True fetch s) = [compile_request (trim (source s)) s]"
    using assms by (rule run_skipCache_sends)
next
  assume "lastRunSignature s \<noteq> Some (JSON_stringify (request_object (trim (source s)) s))"
  with assms show "snd (runCompile False fetch s) = [compile_request (trim (source s)) s]"
    by (rule run_new_signature_sends)
next
  assume "lastRunSignature s = Some (JSON_stringify (request_object (trim (source s)) s))"
  with assms show "runCompile False fetch s = (s, [])" by (rule run_same_signature_skips)
next
  assume l: "lastRunSignature s = Some (JSON_stringify (request_object t0 s0))"
  show "(snd (runCompile False fetch s) = [])
            = (trim (source s) = t0 \<and> demangle s = demangle s0 \<and> optimize s = optimize s0
               \<and> wholeModule s = wholeModule s0 \<and> parseAsLibrary s = parseAsLibrary s0)"
  proof
    assume e: "snd (runCompile False fetch s) = []"
    have "lastRunSignature s = Some (JSON_stringify (request_object (trim (source s)) s))"
    proof (rule ccontr)
      assume "lastRunSignature s \<noteq> Some (JSON_stringify (request_object (trim (source s)) s))"
      with assms have "snd (runCompile False fetch s) = [compile_request (trim (source s)) s]"
        by (rule run_new_signature_sends)
      with e show False by simp
    qed
    with l have "JSON_stringify (request_object (trim (source s)) s)
        = JSON_stringify (request_object t0 s0)"
      by simp
    then show "trim (source s) = t0 \<and> demangle s = demangle s0 \<and> optimize s = optimize s0
               \<and> wholeModule s = wholeModule s0 \<and> parseAsLibrary s = parseAsLibrary s0"
      by (rule signature_determines_inputs)
  next
    assume i: "trim (source s) = t0 \<and> demangle s = demangle s0 \<and> optimize s = optimize s0
               \<and> wholeModule s = wholeModule s0 \<and> parseAsLibrary s = parseAsLibrary s0"
    then have "request_object t0 s0 = request_object t0 s"
      by (intro request_object_cong) simp_all
    with i l have "lastRunSignature s = Some (JSON_stringify (request_object (trim (source s)) s))"
      by simp
    with assms have "runCompile False fetch s = (s, [])" by (rule run_same_signature_skips)
    then show "snd (runCompile False fetch s) = []" by simp
  qed
qed

theorem run_sends_unless_same_signature_witness:
  "trim (source (initial_state\<lparr>source := js ''let x = 1''\<rparr>)) \<noteq> []
   \<and> snd (runCompile True (server_always (Inl NotAnError)) (initial_state\<lparr>source := js ''let x = 1''\<rparr>))
     = [compile_request (js ''let x = 1'') (initial_state\<lparr>source := js ''let x = 1''\<rparr>)]"
proof -
  have ne: "trim (source (initial_state\<lparr>source := js ''let x = 1''\<rparr>)) \<noteq> []"
    unfolding sample_source by (simp add: js_def)
  from run_sends_unless_same_signature [OF ne, THEN conjunct1, of "server_always (Inl NotAnError)"]
  have "snd (runCompile True (server_always (Inl NotAnError)) (initial_state\<lparr>source := js ''let x = 1''\<rparr>))
     = [compile_request (js ''let x = 1'') (initial_state\<lparr>source := js ''let x = 1''\<rparr>)]"
    unfolding sample_source .
  with ne show ?thesis by (rule conjI)
qed

text \<open>
  C4 as stated fails: after a successful auto-run of \<^verbatim>\<open>let x = 1\<close>, a second auto-run of
  the same source and options sends no request.
\<close>

theorem repeated_auto_run_counterexample:
  "snd (runCompile False (server_always (Inr (ok_response no_results)))
          (initial_state\<lparr>source := js ''let x = 1''\<rparr>))
     = [compile_request (js ''let x = 1'') (initial_state\<lparr>source := js ''let x = 1''\<rparr>)]
   \<and> snd (runCompile False (server_always (Inr (ok_response no_results)))
          (fst (runCompile False (server_always (Inr (ok_response no_results)))
                 (initial_state\<lparr>source := js ''let x = 1''\<rparr>)))) = []
   \<and> source (fst (runCompile False (server_always (Inr (ok_response no_results)))
                 (initial_state\<lparr>source := js ''let x = 1''\<rparr>))) = js ''let x = 1''"
proof -
  define s where "s = initial_state\<lparr>source := js ''let x = 1''\<rparr>"
  define f where "f = server_always (Inr (ok_response no_results))"
  define sig where "sig = JSON_stringify (request_object (trim (source s)) s)"
  have t: "trim (source s) = js ''let x = 1''" unfolding s_def by (rule sample_source)
  then have ne: "trim (source s) \<noteq> []" by (simp add: js_def)
  have l: "lastRunSignature s \<noteq> Some sig" by (simp add: s_def initial_state_def)
  have a: "snd (runCompile False f s) = [compile_request (js ''let x = 1'') s]"
    using run_new_signature_sends [OF ne l [unfolded sig_def], of False f] unfolding t .
  define s1 where "s1 = fst (runCompile False f s)"
  have s1: "s1 = s\<lparr>lastRunSignature := Some sig, loading := False, error := None,
                   shown_results := Some no_results\<rparr>"
    unfolding s1_def f_def sig_def by (rule run_ok_state [OF ne l [unfolded sig_def]])
  have src1: "source s1 = source s" by (simp add: s1)
  have "request_object (trim (source s)) s1 = request_object (trim (source s)) s"
    by (rule request_object_cong) (simp_all add: s1)
  then have l1: "lastRunSignature s1 = Some (JSON_stringify (request_object (trim (source s1)) s1))"
    unfolding src1 by (simp add: s1 sig_def)
  have ne1: "trim (source s1) \<noteq> []" unfolding src1 by (rule ne)
  have "runCompile False f s1 = (s1, [])" by (rule run_same_signature_skips [OF ne1 l1])
  then have b: "snd (runCompile False f s1) = []" by simp
  have c: "source s1 = js ''let x = 1''" unfolding src1 by (simp add: s_def)
  from a b c show ?thesis unfolding s1_def s_def f_def by simp
qed

subsection \<open>The fields of the request and of the response\<close>

lemma request_object_keys:
  "map fst (request_object t s)
     = [js ''source'', js ''demangle'', js ''optimize'', js ''moduleOptimize'', js ''parseAsLibrary'']"
  by (simp add: request_object_def)

lemma moduleOptimize_name: "js ''moduleOptimize'' \<noteq> js ''wholeModuleOptimization''"
  by (simp add: js_def)

text \<open>
  C2, as the client has it. Every request goes to \<^verbatim>\<open>/api/compile\<close> and its body is the
  stringified object with exactly the properties \<^verbatim>\<open>source\<close>, \<^verbatim>\<open>demangle\<close>,
  \<^verbatim>\<open>optimize\<close>, \<^verbatim>\<open>moduleOptimize\<close>, \<^verbatim>\<open>parseAsLibrary\<close>, in this order; from an OK
  response the client takes the \<^verbatim>\<open>results\<close> property of the payload as the results to
  show; and a stage result has exactly the fields \<^verbatim>\<open>label\<close>, \<^verbatim>\<open>command\<close>,
  \<^verbatim>\<open>exitCode\<close>, \<^verbatim>\<open>output\<close>.
\<close>

theorem request_and_response_fields:
  assumes "request \<in> set (snd (runCompile skipCache fetch s))"
  shows "url request = js ''/api/compile''
     \<and> body request = JSON_stringify (request_object (trim (source s)) s)
     \<and> map fst (request_object (trim (source s)) s)
         = [js ''source'', js ''demangle'', js ''optimize'', js ''moduleOptimize'', js ''parseAsLibrary'']
     \<and> (ok resp \<and> response_json resp = Inr payload \<longrightarrow>
          shown_results (runCompile_resume (Inr resp) s') = Some (results payload))
     \<and> (r :: CompileResult) = \<lparr>label = label r, command = command r, exitCode = exitCode r, output = output r\<rparr>"
proof -
  from runCompile_requests [OF assms]
  have r: "request = compile_request (trim (source s)) s" by simp
  then have "url request = js ''/api/compile''"
    and "body request = JSON_stringify (request_object (trim (source s)) s)"
    by (simp_all add: compile_request_def)
  moreover have "ok resp \<and> response_json resp = Inr payload \<longrightarrow>
          shown_results (runCompile_resume (Inr resp) s') = Some (results payload)"
    by (simp add: resume_ok)
  moreover have "r = \<lparr>label = label r, command = command r, exitCode = exitCode r, output = output r\<rparr>"
    by simp
  ultimately show ?thesis using request_object_keys [of "trim (source s)" s] by blast
qed

theorem request_and_response_fields_witness:
  "compile_request (js ''let x = 1'') (initial_state\<lparr>source := js ''let x = 1''\<rparr>)
     \<in> set (snd (runCompile True (server_always (Inl NotAnError))
                   (initial_state\<lparr>source := js ''let x = 1''\<rparr>)))
   \<and> url (compile_request (js ''let x = 1'') (initial_state\<lparr>source := js ''let x = 1''\<rparr>))
       = js ''/api/compile''
   \<and> shown_results (runCompile_resume (Inr (ok_response (sample_results 1))) initial_state)
       = Some (sample_results 1)"
proof -
  define s where "s = initial_state\<lparr>source := js ''let x = 1''\<rparr>"
  have t: "trim (source s) = js ''let x = 1''" unfolding s_def by (rule sample_source)
  then have ne: "trim (source s) \<noteq> []" by (simp add: js_def)
  have "snd (runCompile True (server_always (Inl NotAnError)) s) = [compile_request (js ''let x = 1'') s]"
    using run_skipCache_sends [OF ne] unfolding t .
  then have mem: "compile_request (js ''let x = 1'') s
      \<in> set (snd (runCompile True (server_always (Inl NotAnError)) s))"
    by simp
  note T = request_and_response_fields [OF mem, of "ok_response (sample_results 1)" "\<lparr>results = sample_results 1\<rparr>" initial_state]
  have u: "url (compile_request (js ''let x = 1'') s) = js ''/api/compile''"
    by (rule T [THEN conjunct1])
  have "ok (ok_response (sample_results 1))
      \<and> response_json (ok_response (sample_results 1)) = Inr \<lparr>results = sample_results 1\<rparr>"
    by (simp add: ok_response_def)
  with T [THEN conjunct2, THEN conjunct2, THEN conjunct2, THEN conjunct1]
  have "shown_results (runCompile_resume (Inr (ok_response (sample_results 1))) initial_state)
       = Some (results \<lparr>results = sample_results 1\<rparr>)"
    by (rule mp)
  then have v: "shown_results (runCompile_resume (Inr (ok_response (sample_results 1))) initial_state)
       = Some (sample_results 1)"
    by simp
  from mem u v show ?thesis unfolding s_def by simp
qed

text \<open>
  C2 as stated fails: the body sent for \<^verbatim>\<open>let x = 1\<close> has the property
  \<^verbatim>\<open>moduleOptimize\<close>, and no property \<^verbatim>\<open>wholeModuleOptimization\<close>.
\<close>

theorem request_fields_counterexample:
  \<open>map body (snd (runCompile True (server_always (Inl NotAnError))
                   (initial_state\<lparr>source := js ''let x = 1''\<rparr>)))
     = [js ''{"source":"let x = 1","demangle":false,"optimize":false,"moduleOptimize":false,"parseAsLibrary":false}'']
   \<and> map fst (request_object (js ''let x = 1'') (initial_state\<lparr>source := js ''let x = 1''\<rparr>))
     \<noteq> [js ''source'', js ''demangle'', js ''optimize'', js ''wholeModuleOptimization'',
         js ''parseAsLibrary'']\<close>
proof -
  define s where "s = initial_state\<lparr>source := js ''let x = 1''\<rparr>"
  have t: "trim (source s) = js ''let x = 1''" unfolding s_def by (rule sample_source)
  then have ne: "trim (source s) \<noteq> []" by (simp add: js_def)
  have "request_object (js ''let x = 1'') s = request_object (js ''let x = 1'') initial_state"
    by (rule request_object_cong) (simp_all add: s_def)
  then have b: \<open>body (compile_request (js ''let x = 1'') s)
      = js ''{"source":"let x = 1","demangle":false,"optimize":false,"moduleOptimize":false,"parseAsLibrary":false}''\<close>
    using sample_stringify by (simp add: compile_request_def)
  have "snd (runCompile True (server_always (Inl NotAnError)) s) = [compile_request (js ''let x = 1'') s]"
    using run_skipCache_sends [OF ne] unfolding t .
  with b have a: \<open>map body (snd (runCompile True (server_always (Inl NotAnError)) s))
     = [js ''{"source":"let x = 1","demangle":false,"optimize":false,"moduleOptimize":false,"parseAsLibrary":false}'']\<close>
    by simp
  have c: "map fst (request_object (js ''let x = 1'') s)
     \<noteq> [js ''source'', js ''demangle'', js ''optimize'', js ''wholeModuleOptimization'',
         js ''parseAsLibrary'']"
    unfolding request_object_keys using moduleOptimize_name by simp
  from a c show ?thesis unfolding s_def by (rule conjI)
qed

subsection \<open>The order of the tabs\<close>

lemma ViewKey_UNIV: "(UNIV :: ViewKey set) = {silRaw, silCanonical, ast, parse, ir, assembly}"
proof -
  have "k \<in> {silRaw, silCanonical, ast, parse, ir, assembly}" for k :: ViewKey
    by (cases k) simp_all
  then show ?thesis by blast
qed

text \<open>
  C7, as the code has it. The stage catalog is a fixed six-entry ordered sequence: raw
  intermediate representation, canonical intermediate representation, abstract syntax
  tree, parse-only, low-level IR, assembly. In the earlier revision of the client
  (\<^verbatim>\<open>unnamed/part_001\<close>) the tabs are rendered in this order. In
  \<^verbatim>\<open>web/frontend/src/App.tsx\<close> the tabs are rendered in the order of its own
  \<^verbatim>\<open>VIEW_ORDER\<close>, the fixed sequence ast, parse, silRaw, silCanonical, ir, assembly: the
  same six stages, each exactly once, in another order.
\<close>

theorem display_order:
  "map key (stages b) = [silRaw, silCanonical, ast, parse, ir, assembly]
   \<and> map tab_view (tabs_part_001 s) = map key (stages b)
   \<and> map tab_view (tabs s) = [ast, parse, silRaw, silCanonical, ir, assembly]
   \<and> map tab_view (tabs s) = VIEW_ORDER
   \<and> length (tabs s) = 6 \<and> distinct (map tab_view (tabs s))
   \<and> set (map tab_view (tabs s)) = UNIV
   \<and> set (map tab_view (tabs s)) = set (map key (stages b))
   \<and> VIEW_ORDER_part_001 = [silRaw, silCanonical, ast, parse, ir, assembly]"
proof -
  have k: "map key (stages b) = [silRaw, silCanonical, ast, parse, ir, assembly]"
    by (simp add: stages_def)
  have p: "map tab_view (tabs_part_001 s) = [silRaw, silCanonical, ast, parse, ir, assembly]"
    by (simp add: tabs_part_001_def render_tab_part_001_def Let_def comp_def
        VIEW_ORDER_part_001_def)
  have v: "map tab_view (tabs s) = VIEW_ORDER"
    by (simp add: tabs_def render_tab_def Let_def comp_def)
  have o: "VIEW_ORDER = [ast, parse, silRaw, silCanonical, ir, assembly]"
    by (simp add: VIEW_ORDER_def)
  have l: "length (tabs s) = 6" by (simp add: tabs_def VIEW_ORDER_def)
  have u: "set [ast, parse, silRaw, silCanonical, ir, assembly] = (UNIV :: ViewKey set)"
    unfolding ViewKey_UNIV by auto
  have e: "set [ast, parse, silRaw, silCanonical, ir, assembly]
      = set [silRaw, silCanonical, ast, parse, ir, assembly]"
    by auto
  show ?thesis unfolding k p v o using l u e by (simp add: VIEW_ORDER_part_001_def)
qed

text \<open>
  C7 as stated fails: the tabs of the first render are not in the order raw SIL,
  canonical SIL, AST, parse, IR, assembly.
\<close>

theorem display_order_counterexample:
  "map tab_view (tabs initial_state) \<noteq> [silRaw, silCanonical, ast, parse, ir, assembly]
   \<and> map tab_view (tabs initial_state) = [ast, parse, silRaw, silCanonical, ir, assembly]"
  by (simp add: tabs_def render_tab_def Let_def comp_def VIEW_ORDER_def)

section \<open>Properties of the orchestrator\<close>

lemma stage_keys: "map key (stages b) = [silRaw, silCanonical, ast, parse, ir, assembly]"
  by (simp add: stages_def)

lemma compile_accepts:
  "trim (req_source request) \<noteq> [] \<Longrightarrow>
   compile b request = Inr (map (\<lambda>spec. (key spec, runStage b spec request)) (stages b))"
  by (simp add: compile_def)

lemma response_keys:
  "map fst (map (\<lambda>spec. (key spec, runStage b spec request)) (stages b)) = map key (stages b)"
  by (simp add: comp_def)

lemma runStage_command:
  "result_command (runStage b spec request) = buildArgs spec (req_options request)"
  by (simp add: runStage_def Let_def split: sum.split prod.split)

lemma response_commands:
  "map (\<lambda>(k, sr). (k, result_command sr)) (map (\<lambda>spec. (key spec, runStage b spec request)) (stages b))
     = map (\<lambda>k. (k, args_of b k (req_options request))) [silRaw, silCanonical, ast, parse, ir, assembly]"
  by (simp add: stages_def runStage_command)

subsection \<open>Completeness of the response\<close>

text \<open>
  C1. For every request whose source is not empty after trimming, and whatever the
  process runner and the demangler do (every stage may fail), \<open>compile\<close> returns a
  response, and its keys are exactly the six stage keys silRaw, silCanonical, ast, parse,
  ir, assembly, each once.
\<close>

theorem response_has_six_stage_keys:
  assumes "trim (req_source request) \<noteq> []"
  shows "\<exists>response. compile b request = Inr response
           \<and> map fst response = [silRaw, silCanonical, ast, parse, ir, assembly]
           \<and> length response = 6 \<and> distinct (map fst response)
           \<and> dom (map_of response) = UNIV"
proof -
  let ?resp = "map (\<lambda>spec. (key spec, runStage b spec request)) (stages b)"
  have k: "map fst ?resp = [silRaw, silCanonical, ast, parse, ir, assembly]"
    unfolding response_keys by (rule stage_keys)
  then have "length (map fst ?resp) = 6" by simp
  then have l: "length ?resp = 6" by simp
  have d: "distinct (map fst ?resp)" unfolding k by simp
  have "dom (map_of ?resp) = set (map fst ?resp)" by (simp only: dom_map_of_conv_image_fst set_map)
  then have u: "dom (map_of ?resp) = UNIV" unfolding k ViewKey_UNIV by simp
  show ?thesis
  proof (intro exI conjI)
    show "compile b request = Inr ?resp" by (rule compile_accepts [OF assms])
    show "map fst ?resp = [silRaw, silCanonical, ast, parse, ir, assembly]" by (rule k)
    show "length ?resp = 6" by (rule l)
    show "distinct (map fst ?resp)" by (rule d)
    show "dom (map_of ?resp) = UNIV" by (rule u)
  qed
qed

theorem response_has_six_stage_keys_witness:
  "trim (req_source \<lparr>req_source = js ''print(1)'', req_options = sample_options False\<rparr>) \<noteq> []
   \<and> (\<exists>response.
         compile (sample_backend (Inl Timeout))
           \<lparr>req_source = js ''print(1)'', req_options = sample_options False\<rparr> = Inr response
         \<and> map fst response = [silRaw, silCanonical, ast, parse, ir, assembly]
         \<and> map (result_exitCode \<circ> snd) response = [- 1, - 1, - 1, - 1, - 1, - 1])"
proof -
  define rq where "rq = \<lparr>req_source = js ''print(1)'', req_options = sample_options False\<rparr>"
  have ne: "trim (req_source rq) \<noteq> []"
    by (simp add: rq_def trim_def isWhiteSpace_def js_def)
  from response_has_six_stage_keys [OF ne, of "sample_backend (Inl Timeout)"]
  obtain response where c: "compile (sample_backend (Inl Timeout)) rq = Inr response"
    and k: "map fst response = [silRaw, silCanonical, ast, parse, ir, assembly]"
    by (elim exE conjE)
  from c have "response = map (\<lambda>spec. (key spec, runStage (sample_backend (Inl Timeout)) spec rq))
       (stages (sample_backend (Inl Timeout)))"
    unfolding compile_accepts [OF ne] by simp
  then have "map (result_exitCode \<circ> snd) response = [- 1, - 1, - 1, - 1, - 1, - 1]"
    by (simp add: stages_def runStage_def sample_backend_def)
  with c k have "\<exists>response. compile (sample_backend (Inl Timeout)) rq = Inr response
         \<and> map fst response = [silRaw, silCanonical, ast, parse, ir, assembly]
         \<and> map (result_exitCode \<circ> snd) response = [- 1, - 1, - 1, - 1, - 1, - 1]"
    by (intro exI [of _ response] conjI)
  with ne show ?thesis unfolding rq_def by (rule conjI)
qed

subsection \<open>The command depends on the options only\<close>

text \<open>
  C6. Two accepted calls with the same options get, stage by stage, the same command
  (argument vector), whatever their sources are and however the stage invocations end:
  the command of a stage is its argument builder applied to the options.
\<close>

theorem command_function_of_options:
  assumes "req_options request1 = req_options request2"
    and "args_of b1 = args_of b2"
    and "compile b1 request1 = Inr response1"
    and "compile b2 request2 = Inr response2"
  shows "map (\<lambda>(k, sr). (k, result_command sr)) response1
       = map (\<lambda>(k, sr). (k, result_command sr)) response2
     \<and> map (\<lambda>(k, sr). (k, result_command sr)) response1
       = map (\<lambda>k. (k, args_of b1 k (req_options request1)))
           [silRaw, silCanonical, ast, parse, ir, assembly]"
proof -
  from assms(3) have r1: "response1 = map (\<lambda>spec. (key spec, runStage b1 spec request1)) (stages b1)"
    by (simp add: compile_def split: if_splits)
  from assms(4) have r2: "response2 = map (\<lambda>spec. (key spec, runStage b2 spec request2)) (stages b2)"
    by (simp add: compile_def split: if_splits)
  show ?thesis unfolding r1 r2 response_commands by (simp add: assms(1,2))
qed

theorem command_function_of_options_witness:
  "req_options \<lparr>req_source = js ''print(1)'', req_options = sample_options True\<rparr>
     = req_options \<lparr>req_source = js ''print(2)'', req_options = sample_options True\<rparr>
   \<and> args_of (sample_backend (Inl Timeout)) = args_of (sample_backend (Inr (0, js ''ok'')))
   \<and> map (result_command \<circ> snd)
        (projr (compile (sample_backend (Inl Timeout))
                  \<lparr>req_source = js ''print(1)'', req_options = sample_options True\<rparr>))
     = map (result_command \<circ> snd)
        (projr (compile (sample_backend (Inr (0, js ''ok'')))
                  \<lparr>req_source = js ''print(2)'', req_options = sample_options True\<rparr>))"
proof -
  define r1 where "r1 = \<lparr>req_source = js ''print(1)'', req_options = sample_options True\<rparr>"
  define r2 where "r2 = \<lparr>req_source = js ''print(2)'', req_options = sample_options True\<rparr>"
  define b1 where "b1 = sample_backend (Inl Timeout)"
  define b2 where "b2 = sample_backend (Inr (0, js ''ok''))"
  have o: "req_options r1 = req_options r2" by (simp add: r1_def r2_def)
  have a: "args_of b1 = args_of b2" by (simp add: b1_def b2_def sample_backend_def)
  have ne1: "trim (req_source r1) \<noteq> []" by (simp add: r1_def trim_def isWhiteSpace_def js_def)
  have ne2: "trim (req_source r2) \<noteq> []" by (simp add: r2_def trim_def isWhiteSpace_def js_def)
  have c1: "compile b1 r1 = Inr (projr (compile b1 r1))" unfolding compile_accepts [OF ne1] by simp
  have c2: "compile b2 r2 = Inr (projr (compile b2 r2))" unfolding compile_accepts [OF ne2] by simp
  from command_function_of_options [OF o a c1 c2, THEN conjunct1]
  have "map snd (map (\<lambda>(k, sr). (k, result_command sr)) (projr (compile b1 r1)))
      = map snd (map (\<lambda>(k, sr). (k, result_command sr)) (projr (compile b2 r2)))"
    by (rule arg_cong)
  then have "map (result_command \<circ> snd) (projr (compile b1 r1))
      = map (result_command \<circ> snd) (projr (compile b2 r2))"
    by (simp add: comp_def case_prod_beta)
  with o a show ?thesis unfolding r1_def r2_def b1_def b2_def by (intro conjI)
qed

subsection \<open>Post-processing without demangling\<close>

text \<open>
  C8. If demangling was not requested, or the stage is not eligible for it, \<open>postProcess\<close>
  returns the raw output unchanged, whatever the demangler would do.
\<close>

theorem postProcess_identity:
  assumes "\<not> demangleRequested \<or> \<not> stageEligible"
  shows "postProcess dm rawOutput stageEligible demangleRequested = rawOutput"
  using assms by (auto simp: postProcess_def)

theorem postProcess_identity_witness:
  "postProcess (demangler (sample_backend (Inr (0, js ''_T04main'')))) (js ''_T04main'') False True
       = js ''_T04main''
   \<and> postProcess (demangler (sample_backend (Inr (0, js ''_T04main'')))) (js ''_T04main'') True True
       = js ''demangled''"
proof -
  have h: "\<not> True \<or> \<not> False" by simp
  have "postProcess (demangler (sample_backend (Inr (0, js ''_T04main'')))) (js ''_T04main'') True True
       = js ''demangled''"
    by (simp add: postProcess_def sample_backend_def)
  with postProcess_identity [OF h, of "demangler (sample_backend (Inr (0, js ''_T04main'')))" "js ''_T04main''"]
  show ?thesis by (rule conjI)
qed

lemma runStage_output_raw:
  assumes "\<not> opt_demangle (req_options request) \<or> \<not> demangleEligible spec"
    and "run b (key spec) (buildArgs spec (req_options request)) (req_source request) = Inr (code, rawOutput)"
  shows "result_output (runStage b spec request) = rawOutput"
  using assms by (auto simp: runStage_def postProcess_def)

end
